theory Spec2Isabelle
  imports Main
begin

section \<open>The persistent store (database/init.sql)\<close>

text \<open>
  Identifiers are UUID texts, timestamps are milliseconds since the epoch (what a
  JavaScript \<open>Date\<close> holds). Each table is the list of its rows, in storage order,
  with the columns the handlers read or write. The flags and timestamps that the schema
  gives a default are taken as not null; the quotas, the permission document and the
  expiry may be null.
\<close>

type_synonym uuid = string
type_synonym timestamp = int

text \<open>The members of a JSONB permission document, with JavaScript's truthiness.\<close>

datatype jsval = JNull | JBool bool | JNum int | JStr string | JObj

type_synonym permission_set = "(string \<times> jsval) list"

record tenant =
  t_id :: uuid
  t_name :: string
  t_subdomain :: string
  t_api_key :: string
  t_plan :: string
  t_max_endpoints :: "int option"
  t_max_requests_per_day :: "int option"
  t_is_active :: bool

record api_key_row =
  ak_tenant_id :: uuid
  ak_key_name :: string
  ak_api_key :: string
  ak_permissions :: "permission_set option"
  ak_rate_limit :: "int option"
  ak_is_active :: bool
  ak_expires_at :: "timestamp option"
  ak_last_used_at :: "timestamp option"

record usage_log =
  ul_tenant_id :: uuid
  ul_request_method :: string
  ul_request_path :: string
  ul_ip_address :: string
  ul_user_agent :: "string option"
  ul_api_key_used :: string
  ul_created_at :: timestamp

record connection =
  c_tenant_id :: uuid
  c_connection_id :: string
  c_socket_id :: string
  c_user_info :: timestamp
  c_connected_at :: timestamp
  c_last_ping_at :: timestamp
  c_is_active :: bool

record store =
  tenants :: "tenant list"
  api_keys :: "api_key_row list"
  api_usage_logs :: "usage_log list"
  realtime_connections :: "connection list"

text \<open>
  Every \<open>pool.query\<close> call site of the source. A query either returns or throws; which
  call sites throw during one request or event is part of the environment.
\<close>

datatype query =
    SelectTenantById
  | SelectTenantByKey
  | UpdateLastUsed
  | CountUsage
  | InsertUsage
  | SelectTenantForJoin
  | UpsertConnection
  | UpdatePing
  | UpdateDisconnect
  | DeleteStale

datatype db_error = QueryFailed

record jwt_payload =
  jp_tenantId :: uuid
  jp_plan :: string

text \<open>
  The environment of one request or socket event: the clock (one instant stands for
  every reading during the request, the server's and the store's), the token verifier
  (\<open>jwt.verify\<close> with the configured secret; \<open>None\<close> when it throws) and the call
  sites whose query throws.
\<close>

record env =
  e_now :: timestamp
  e_jwt_verify :: "string \<Rightarrow> jwt_payload option"
  e_failing :: "query \<Rightarrow> bool"

section \<open>JavaScript values\<close>

fun truthy :: "jsval option \<Rightarrow> bool" where
  "truthy None = False"
| "truthy (Some JNull) = False"
| "truthy (Some (JBool b)) = b"
| "truthy (Some (JNum n)) = (n \<noteq> 0)"
| "truthy (Some (JStr s)) = (s \<noteq> [])"
| "truthy (Some JObj) = True"

text \<open>\<open>a || b\<close> on strings that may be undefined: the empty string is falsy.\<close>

definition js_or_str :: "string option \<Rightarrow> string option \<Rightarrow> string option" where
  "js_or_str a b = (case a of None \<Rightarrow> b | Some s \<Rightarrow> if s = [] then b else Some s)"

text \<open>\<open>a || b\<close> on numbers that may be null: zero is falsy.\<close>

definition js_truthy_num :: "int option \<Rightarrow> bool" where
  "js_truthy_num a = (case a of None \<Rightarrow> False | Some n \<Rightarrow> n \<noteq> 0)"

definition js_or_num :: "int option \<Rightarrow> int option \<Rightarrow> int option" where
  "js_or_num a b = (if js_truthy_num a then a else b)"

text \<open>\<open>a < b\<close> where \<open>b\<close> may be null: null converts to 0.\<close>

definition js_lt_num :: "int \<Rightarrow> int option \<Rightarrow> bool" where
  "js_lt_num a b = (a < (case b of None \<Rightarrow> 0 | Some n \<Rightarrow> n))"

text \<open>\<open>s.replace(pat, rep)\<close> with a string pattern: the first occurrence only.\<close>

fun replace_first :: "string \<Rightarrow> string \<Rightarrow> string \<Rightarrow> string" where
  "replace_first pat rep [] = (if pat = [] then rep else [])"
| "replace_first pat rep (c # cs) =
     (if take (length pat) (c # cs) = pat then rep @ drop (length pat) (c # cs)
      else c # replace_first pat rep cs)"

text \<open>A number inside a template literal: its decimal digits; null prints as \<open>null\<close>.\<close>

fun digits_of :: "nat \<Rightarrow> string" where
  "digits_of n =
     (if n < 10 then [''0123456789'' ! n]
      else digits_of (n div 10) @ [''0123456789'' ! (n mod 10)])"

declare digits_of.simps [simp del]

definition js_string_of_int :: "int \<Rightarrow> string" where
  "js_string_of_int i = (if i < 0 then CHR ''-'' # digits_of (nat (- i)) else digits_of (nat i))"

definition js_string_of_num :: "int option \<Rightarrow> string" where
  "js_string_of_num a = (case a of None \<Rightarrow> ''null'' | Some i \<Rightarrow> js_string_of_int i)"

section \<open>HTTP requests and responses\<close>

record request =
  rq_x_api_key :: "string option"
  rq_authorization :: "string option"
  rq_query_api_key :: "string option"
  rq_method :: string
  rq_path :: string
  rq_ip :: string
  rq_user_agent :: "string option"

text \<open>
  What the middleware attaches as \<open>req.tenant\<close>: the whole row on the token path, a
  selection of columns with the permission set and the effective rate limit on the
  key path.
\<close>

record tenant_info =
  ti_id :: uuid
  ti_name :: string
  ti_subdomain :: string
  ti_plan :: string
  ti_max_endpoints :: "int option"
  ti_max_requests_per_day :: "int option"
  ti_permissions :: permission_set
  ti_rate_limit :: "int option"

datatype req_tenant = TenantRow tenant | TenantInfo tenant_info

record req_context =
  rc_tenant :: req_tenant
  rc_authMethod :: string
  rc_apiKey :: "string option"
  rc_startTime :: "timestamp option"

record body =
  b_error :: string
  b_message :: string
  b_resetTime :: "timestamp option"

text \<open>\<open>Next ctx\<close> is \<open>next()\<close> with \<open>ctx\<close> attached; \<open>Status n b\<close> is \<open>res.status(n).json(b)\<close>.\<close>

datatype outcome = Next req_context | Status nat body

fun rt_id :: "req_tenant \<Rightarrow> uuid" where
  "rt_id (TenantRow t) = t_id t"
| "rt_id (TenantInfo i) = ti_id i"

fun rt_plan :: "req_tenant \<Rightarrow> string" where
  "rt_plan (TenantRow t) = t_plan t"
| "rt_plan (TenantInfo i) = ti_plan i"

text \<open>\<open>req.tenant.permissions\<close>: a table row has no such property.\<close>

fun rt_permissions :: "req_tenant \<Rightarrow> permission_set option" where
  "rt_permissions (TenantRow t) = None"
| "rt_permissions (TenantInfo i) = Some (ti_permissions i)"

section \<open>Queries\<close>

text \<open>\<open>SELECT * FROM tenants WHERE id = $1 AND is_active = true\<close>\<close>

definition select_tenant_by_id :: "bool \<Rightarrow> store \<Rightarrow> uuid \<Rightarrow> db_error + tenant list" where
  "select_tenant_by_id fail st tid =
     (if fail then Inl QueryFailed
      else Inr (filter (\<lambda>t. t_id t = tid \<and> t_is_active t) (tenants st)))"

text \<open>
  The key lookup: tenants LEFT JOIN api_keys ON the tenant owns the key and the key's
  text is \<open>$1\<close>; a tenant with no such key gives one row with the key columns null.
  The rows that pass WHERE \<open>(t.api_key = $1 OR ak.api_key = $1) AND t.is_active = true\<close>
  are returned in table order (the query has no ORDER BY); the middleware reads the first.
\<close>

record key_row =
  kr_tenant :: tenant
  kr_permissions :: "permission_set option"
  kr_api_key_rate_limit :: "int option"
  kr_expires_at :: "timestamp option"

definition left_join_keys :: "store \<Rightarrow> string \<Rightarrow> (tenant \<times> api_key_row option) list" where
  "left_join_keys st k =
     concat (map (\<lambda>t.
       (case filter (\<lambda>a. t_id t = ak_tenant_id a \<and> ak_api_key a = k) (api_keys st) of
          [] \<Rightarrow> [(t, None)]
        | a # as \<Rightarrow> map (\<lambda>a'. (t, Some a')) (a # as))) (tenants st))"

fun key_where :: "string \<Rightarrow> tenant \<times> api_key_row option \<Rightarrow> bool" where
  "key_where k (t, None) = (t_api_key t = k \<and> t_is_active t)"
| "key_where k (t, Some a) = ((t_api_key t = k \<or> ak_api_key a = k) \<and> t_is_active t)"

fun key_columns :: "tenant \<times> api_key_row option \<Rightarrow> key_row" where
  "key_columns (t, None) =
     \<lparr>kr_tenant = t, kr_permissions = None, kr_api_key_rate_limit = None, kr_expires_at = None\<rparr>"
| "key_columns (t, Some a) =
     \<lparr>kr_tenant = t, kr_permissions = ak_permissions a,
      kr_api_key_rate_limit = ak_rate_limit a, kr_expires_at = ak_expires_at a\<rparr>"

definition select_tenant_by_key :: "bool \<Rightarrow> store \<Rightarrow> string \<Rightarrow> db_error + key_row list" where
  "select_tenant_by_key fail st k =
     (if fail then Inl QueryFailed
      else Inr (map key_columns (filter (key_where k) (left_join_keys st k))))"

text \<open>\<open>UPDATE api_keys SET last_used_at = CURRENT_TIMESTAMP WHERE api_key = $1\<close>\<close>

definition set_last_used :: "timestamp \<Rightarrow> string \<Rightarrow> store \<Rightarrow> store" where
  "set_last_used now k st =
     st\<lparr>api_keys :=
       map (\<lambda>a. if ak_api_key a = k then a\<lparr>ak_last_used_at := Some now\<rparr> else a) (api_keys st)\<rparr>"

definition update_last_used :: "bool \<Rightarrow> timestamp \<Rightarrow> store \<Rightarrow> string \<Rightarrow> db_error + store" where
  "update_last_used fail now st k =
     (if fail then Inl QueryFailed else Inr (set_last_used now k st))"

text \<open>\<open>SELECT COUNT(*) FROM api_usage_logs WHERE tenant_id = $1 AND created_at >= $2\<close>\<close>

definition count_usage :: "bool \<Rightarrow> store \<Rightarrow> uuid \<Rightarrow> timestamp \<Rightarrow> db_error + int" where
  "count_usage fail st tid since =
     (if fail then Inl QueryFailed
      else Inr (int (length
        (filter (\<lambda>u. ul_tenant_id u = tid \<and> since \<le> ul_created_at u) (api_usage_logs st)))))"

text \<open>\<open>INSERT INTO api_usage_logs (...)\<close>; \<open>created_at\<close> takes its default, the current time.\<close>

definition insert_usage :: "bool \<Rightarrow> store \<Rightarrow> usage_log \<Rightarrow> db_error + store" where
  "insert_usage fail st u =
     (if fail then Inl QueryFailed
      else Inr (st\<lparr>api_usage_logs := api_usage_logs st @ [u]\<rparr>))"

section \<open>middleware/auth.js\<close>

definition ms_per_day :: int where
  "ms_per_day = 24 * 60 * 60 * 1000"

text \<open>
  \<open>new Date().toISOString().split('T')[0]\<close> is the UTC calendar date of the instant,
  held here as its day number; the store reads that date, compared with a timestamp
  column, as midnight UTC of the day.
\<close>

definition utc_date :: "timestamp \<Rightarrow> int" where
  "utc_date t = t div ms_per_day"

definition date_to_timestamp :: "int \<Rightarrow> timestamp" where
  "date_to_timestamp d = d * ms_per_day"

record rate_limit_result =
  rl_allowed :: bool
  rl_current :: int
  rl_limit :: "int option"
  rl_resetTime :: "timestamp option"

definition checkRateLimit :: "env \<Rightarrow> store \<Rightarrow> uuid \<Rightarrow> int option \<Rightarrow> rate_limit_result" where
  "checkRateLimit e st tenantId dailyLimit =
     (let today = utc_date (e_now e) in
      case count_usage (e_failing e CountUsage) st tenantId (date_to_timestamp today) of
        Inr currentCount \<Rightarrow>
          \<lparr>rl_allowed = js_lt_num currentCount dailyLimit, rl_current = currentCount,
           rl_limit = dailyLimit, rl_resetTime = Some (e_now e + 24 * 60 * 60 * 1000)\<rparr>
      | Inl err \<Rightarrow>
          \<lparr>rl_allowed = True, rl_current = 0, rl_limit = dailyLimit, rl_resetTime = None\<rparr>)"

text \<open>\<open>req.apiKey?.substring(0, 10) + '...'\<close>\<close>

definition api_key_used :: "string option \<Rightarrow> string" where
  "api_key_used k = (case k of None \<Rightarrow> ''undefined'' | Some s \<Rightarrow> take 10 s) @ ''...''"

text \<open>
  \<open>logAPIUsage\<close> stores the start time on the request, then inserts the record; a
  failing insert is logged and swallowed.
\<close>

definition logAPIUsage :: "env \<Rightarrow> store \<Rightarrow> request \<Rightarrow> req_context \<Rightarrow> req_context \<times> store" where
  "logAPIUsage e st req ctx =
     (let ctx' = ctx\<lparr>rc_startTime := Some (e_now e)\<rparr> in
      case insert_usage (e_failing e InsertUsage) st
             \<lparr>ul_tenant_id = rt_id (rc_tenant ctx'), ul_request_method = rq_method req,
              ul_request_path = rq_path req, ul_ip_address = rq_ip req,
              ul_user_agent = rq_user_agent req,
              ul_api_key_used = api_key_used (rc_apiKey ctx'),
              ul_created_at = e_now e\<rparr> of
        Inr st' \<Rightarrow> (ctx', st')
      | Inl err \<Rightarrow> (ctx', st))"

definition no_credential_body :: body where
  "no_credential_body =
     \<lparr>b_error = ''Authentication required'',
      b_message = ''API key must be provided in X-API-Key header, Authorization header, or api_key query parameter'',
      b_resetTime = None\<rparr>"

definition tenant_not_found_body :: body where
  "tenant_not_found_body =
     \<lparr>b_error = ''Invalid token'', b_message = ''Tenant not found or inactive'',
      b_resetTime = None\<rparr>"

definition invalid_token_body :: body where
  "invalid_token_body =
     \<lparr>b_error = ''Invalid token'', b_message = ''JWT token is invalid or expired'',
      b_resetTime = None\<rparr>"

definition invalid_key_body :: body where
  "invalid_key_body =
     \<lparr>b_error = ''Invalid API key'',
      b_message = ''The provided API key is not valid or the tenant is inactive'',
      b_resetTime = None\<rparr>"

definition expired_key_body :: body where
  "expired_key_body =
     \<lparr>b_error = ''API key expired'', b_message = ''The provided API key has expired'',
      b_resetTime = None\<rparr>"

definition rate_limit_body :: "rate_limit_result \<Rightarrow> body" where
  "rate_limit_body r =
     \<lparr>b_error = ''Rate limit exceeded'',
      b_message = ''Rate limit of '' @ js_string_of_num (rl_limit r) @ '' requests per day exceeded'',
      b_resetTime = rl_resetTime r\<rparr>"

definition auth_failed_body :: body where
  "auth_failed_body =
     \<lparr>b_error = ''Authentication failed'',
      b_message = ''Internal server error during authentication'',
      b_resetTime = None\<rparr>"

text \<open>
  The credential: the key header, else the authorization header without its first
  \<open>Bearer \<close>, else the query parameter.
\<close>

definition extract_api_key :: "request \<Rightarrow> string option" where
  "extract_api_key req =
     js_or_str
       (js_or_str (rq_x_api_key req)
          (map_option (replace_first ''Bearer '' []) (rq_authorization req)))
       (rq_query_api_key req)"

text \<open>
  The token branch (lines 25 to 49). Its inner \<open>try\<close> holds both the verification and
  the tenant query, so a throwing query is answered like a bad token. The branch returns
  through \<open>next()\<close> at once.
\<close>

definition authenticate_jwt :: "env \<Rightarrow> store \<Rightarrow> string \<Rightarrow> outcome \<times> store" where
  "authenticate_jwt e st apiKey =
     (case e_jwt_verify e apiKey of
        None \<Rightarrow> (Status 401 invalid_token_body, st)
      | Some decoded \<Rightarrow>
          (case select_tenant_by_id (e_failing e SelectTenantById) st (jp_tenantId decoded) of
             Inl err \<Rightarrow> (Status 401 invalid_token_body, st)
           | Inr [] \<Rightarrow> (Status 401 tenant_not_found_body, st)
           | Inr (row # rows) \<Rightarrow>
               (Next \<lparr>rc_tenant = TenantRow row, rc_authMethod = ''jwt'',
                      rc_apiKey = None, rc_startTime = None\<rparr>, st)))"

text \<open>
  Lines 86 to 114: the rate limit check on the row the lookup gave, then the attachment
  of the tenant to the request and the usage log.
\<close>

definition admit :: "env \<Rightarrow> store \<Rightarrow> request \<Rightarrow> string \<Rightarrow> key_row \<Rightarrow> outcome \<times> store" where
  "admit e st req apiKey tenant =
     (let rateLimitResult =
            checkRateLimit e st (t_id (kr_tenant tenant))
              (js_or_num (kr_api_key_rate_limit tenant) (t_max_requests_per_day (kr_tenant tenant)))
      in if \<not> rl_allowed rateLimitResult then (Status 429 (rate_limit_body rateLimitResult), st)
         else
           (let ctx =
                  \<lparr>rc_tenant = TenantInfo
                     \<lparr>ti_id = t_id (kr_tenant tenant), ti_name = t_name (kr_tenant tenant),
                      ti_subdomain = t_subdomain (kr_tenant tenant),
                      ti_plan = t_plan (kr_tenant tenant),
                      ti_max_endpoints = t_max_endpoints (kr_tenant tenant),
                      ti_max_requests_per_day = t_max_requests_per_day (kr_tenant tenant),
                      ti_permissions = (case kr_permissions tenant of None \<Rightarrow> [] | Some p \<Rightarrow> p),
                      ti_rate_limit = js_or_num (kr_api_key_rate_limit tenant)
                                        (t_max_requests_per_day (kr_tenant tenant))\<rparr>,
                   rc_authMethod = ''api_key'', rc_apiKey = Some apiKey, rc_startTime = None\<rparr>;
                logged = logAPIUsage e st req ctx
            in (Next (fst logged), snd logged)))"

text \<open>
  The key branch (lines 51 to 114). A query that throws outside \<open>checkRateLimit\<close> and
  \<open>logAPIUsage\<close> reaches the outer \<open>catch\<close>, which answers 500.
\<close>

definition authenticate_api_key :: "env \<Rightarrow> store \<Rightarrow> request \<Rightarrow> string \<Rightarrow> outcome \<times> store" where
  "authenticate_api_key e st req apiKey =
     (case select_tenant_by_key (e_failing e SelectTenantByKey) st apiKey of
        Inl err \<Rightarrow> (Status 500 auth_failed_body, st)
      | Inr [] \<Rightarrow> (Status 401 invalid_key_body, st)
      | Inr (tenant # rows) \<Rightarrow>
          if (case kr_expires_at tenant of None \<Rightarrow> False | Some x \<Rightarrow> x < e_now e)
          then (Status 401 expired_key_body, st)
          else if js_truthy_num (kr_api_key_rate_limit tenant)
          then (case update_last_used (e_failing e UpdateLastUsed) (e_now e) st apiKey of
                  Inl err \<Rightarrow> (Status 500 auth_failed_body, st)
                | Inr st' \<Rightarrow> admit e st' req apiKey tenant)
          else admit e st req apiKey tenant)"

definition authenticateTenant :: "env \<Rightarrow> store \<Rightarrow> request \<Rightarrow> outcome \<times> store" where
  "authenticateTenant e st req =
     (case extract_api_key req of
        None \<Rightarrow> (Status 401 no_credential_body, st)
      | Some apiKey \<Rightarrow>
          if apiKey = [] then (Status 401 no_credential_body, st)
          else if take 3 apiKey = ''eyJ'' then authenticate_jwt e st apiKey
          else authenticate_api_key e st req apiKey)"

text \<open>
  \<open>permissions[permission]\<close> on a plain object: the object's own member of that name
  (a member of the stored JSON document), else the member every object inherits from
  \<open>Object.prototype\<close> under that name (a function or an accessor, truthy), else
  undefined.
\<close>

definition object_prototype_members :: "string list" where
  "object_prototype_members =
     [''constructor'', ''__proto__'', ''hasOwnProperty'', ''isPrototypeOf'',
      ''propertyIsEnumerable'', ''toLocaleString'', ''toString'', ''valueOf'',
      ''__defineGetter__'', ''__defineSetter__'', ''__lookupGetter__'', ''__lookupSetter__'']"

definition js_get :: "permission_set \<Rightarrow> string \<Rightarrow> jsval option" where
  "js_get obj name =
     (case map_of obj name of
        Some v \<Rightarrow> Some v
      | None \<Rightarrow> if name \<in> set object_prototype_members then Some JObj else None)"

text \<open>
  \<open>requirePermission(permission)\<close>: the handler it returns, applied to a request that
  carries \<open>req.tenant\<close> or not.
\<close>

definition auth_required_body :: body where
  "auth_required_body =
     \<lparr>b_error = ''Authentication required'',
      b_message = ''Must be authenticated to access this resource'',
      b_resetTime = None\<rparr>"

definition permission_denied_body :: "string \<Rightarrow> body" where
  "permission_denied_body permission =
     \<lparr>b_error = ''Permission denied'',
      b_message = ''This action requires '' @ [CHR 0x27] @ permission @ [CHR 0x27] @
                  '' permission or enterprise plan'',
      b_resetTime = None\<rparr>"

definition requirePermission :: "string \<Rightarrow> req_context option \<Rightarrow> outcome" where
  "requirePermission permission req =
     (case req of
        None \<Rightarrow> Status 401 auth_required_body
      | Some ctx \<Rightarrow>
          (let permissions = (case rt_permissions (rc_tenant ctx) of None \<Rightarrow> [] | Some p \<Rightarrow> p)
           in if \<not> truthy (js_get permissions permission) \<and> rt_plan (rc_tenant ctx) \<noteq> ''enterprise''
              then Status 403 (permission_denied_body permission)
              else Next ctx))"

section \<open>The socket handlers (setupWebSocket)\<close>

text \<open>
  A socket with the properties the handlers set on it, and the rooms it has joined.
  Before a join \<open>tenantId\<close> is undefined.
\<close>

record socket =
  s_id :: string
  s_tenantId :: "uuid option"
  s_tenant :: "tenant option"
  s_rooms :: "string list"

text \<open>What a handler sends: events to the socket itself, and broadcasts to a room.\<close>

datatype emitted =
    Joined uuid string tenant
  | Error string
  | QueryResult
  | QueryExecuted string string
  | ConnectionTestResult
  | Pong

text \<open>\<open>SELECT * FROM tenants WHERE id = $1 AND api_key = $2 AND is_active = true\<close>\<close>

definition select_tenant_for_join ::
  "bool \<Rightarrow> store \<Rightarrow> uuid \<Rightarrow> string \<Rightarrow> db_error + tenant list" where
  "select_tenant_for_join fail st tid k =
     (if fail then Inl QueryFailed
      else Inr (filter (\<lambda>t. t_id t = tid \<and> t_api_key t = k \<and> t_is_active t) (tenants st)))"

text \<open>
  \<open>INSERT INTO realtime_connections (tenant_id, connection_id, socket_id, user_info)
  ... ON CONFLICT (connection_id) DO UPDATE SET last_ping_at = CURRENT_TIMESTAMP,
  is_active = true\<close>. The columns not named take their defaults.
\<close>

definition upsert_connection ::
  "bool \<Rightarrow> timestamp \<Rightarrow> store \<Rightarrow> uuid \<Rightarrow> string \<Rightarrow> string \<Rightarrow> timestamp \<Rightarrow> db_error + store" where
  "upsert_connection fail now st tid cid sid info =
     (if fail then Inl QueryFailed
      else if list_ex (\<lambda>c. c_connection_id c = cid) (realtime_connections st)
      then Inr (st\<lparr>realtime_connections :=
             map (\<lambda>c. if c_connection_id c = cid
                       then c\<lparr>c_last_ping_at := now, c_is_active := True\<rparr> else c)
               (realtime_connections st)\<rparr>)
      else Inr (st\<lparr>realtime_connections := realtime_connections st @
             [\<lparr>c_tenant_id = tid, c_connection_id = cid, c_socket_id = sid, c_user_info = info,
               c_connected_at = now, c_last_ping_at = now, c_is_active = True\<rparr>]\<rparr>))"

text \<open>\<open>UPDATE realtime_connections SET last_ping_at = CURRENT_TIMESTAMP WHERE socket_id = $1\<close>\<close>

definition update_ping :: "bool \<Rightarrow> timestamp \<Rightarrow> store \<Rightarrow> string \<Rightarrow> db_error + store" where
  "update_ping fail now st sid =
     (if fail then Inl QueryFailed
      else Inr (st\<lparr>realtime_connections :=
             map (\<lambda>c. if c_socket_id c = sid then c\<lparr>c_last_ping_at := now\<rparr> else c)
               (realtime_connections st)\<rparr>))"

text \<open>\<open>UPDATE realtime_connections SET is_active = false WHERE socket_id = $1\<close>\<close>

definition update_disconnect :: "bool \<Rightarrow> store \<Rightarrow> string \<Rightarrow> db_error + store" where
  "update_disconnect fail st sid =
     (if fail then Inl QueryFailed
      else Inr (st\<lparr>realtime_connections :=
             map (\<lambda>c. if c_socket_id c = sid then c\<lparr>c_is_active := False\<rparr> else c)
               (realtime_connections st)\<rparr>))"

text \<open>
  \<open>DELETE FROM realtime_connections WHERE last_ping_at < NOW() - INTERVAL '10 minutes'
  OR is_active = false\<close>
\<close>

definition ten_minutes :: int where
  "ten_minutes = 10 * 60 * 1000"

definition stale :: "timestamp \<Rightarrow> connection \<Rightarrow> bool" where
  "stale now c = (c_last_ping_at c < now - ten_minutes \<or> c_is_active c = False)"

definition delete_stale :: "bool \<Rightarrow> timestamp \<Rightarrow> store \<Rightarrow> db_error + store" where
  "delete_stale fail now st =
     (if fail then Inl QueryFailed
      else Inr (st\<lparr>realtime_connections :=
             filter (\<lambda>c. \<not> stale now c) (realtime_connections st)\<rparr>))"

text \<open>\<open>!socket.tenantId\<close>\<close>

definition unauthenticated :: "socket \<Rightarrow> bool" where
  "unauthenticated s = (case s_tenantId s of None \<Rightarrow> True | Some i \<Rightarrow> i = [])"

definition room_of :: "uuid \<Rightarrow> string" where
  "room_of tenantId = ''tenant-'' @ tenantId"

text \<open>
  The \<open>join-tenant\<close> handler. The socket is put into the room and bound to the tenant
  before the connection row is written; the \<open>catch\<close> around the whole handler only emits
  an error.
\<close>

definition join_tenant ::
  "env \<Rightarrow> uuid \<Rightarrow> string \<Rightarrow> socket \<times> store \<Rightarrow> (socket \<times> store) \<times> emitted list" where
  "join_tenant e tenantId apiKey ss =
     (case ss of (s, st) \<Rightarrow>
      (case select_tenant_for_join (e_failing e SelectTenantForJoin) st tenantId apiKey of
         Inl err \<Rightarrow> ((s, st), [Error ''Connection failed''])
       | Inr [] \<Rightarrow> ((s, st), [Error ''Invalid tenant credentials''])
       | Inr (row # rows) \<Rightarrow>
           (let s' = s\<lparr>s_tenantId := Some tenantId, s_tenant := Some row,
                        s_rooms := List.insert (room_of tenantId) (s_rooms s)\<rparr>
            in case upsert_connection (e_failing e UpsertConnection) (e_now e) st
                      tenantId (s_id s) (s_id s) (e_now e) of
                 Inl err \<Rightarrow> ((s', st), [Error ''Connection failed''])
               | Inr st' \<Rightarrow> ((s', st'), [Joined tenantId ''connected'' row]))))"

text \<open>The \<open>execute-query\<close> and \<open>test-connection\<close> handlers: for joined sockets only.\<close>

definition execute_query :: "socket \<times> store \<Rightarrow> (socket \<times> store) \<times> emitted list" where
  "execute_query ss =
     (case ss of (s, st) \<Rightarrow>
      (case s_tenantId s of
         None \<Rightarrow> (ss, [Error ''Not authenticated''])
       | Some i \<Rightarrow>
           if i = [] then (ss, [Error ''Not authenticated''])
           else (ss, [QueryResult, QueryExecuted (room_of i) (s_id s)])))"

definition test_connection :: "socket \<times> store \<Rightarrow> (socket \<times> store) \<times> emitted list" where
  "test_connection ss =
     (case ss of (s, st) \<Rightarrow>
      if unauthenticated s then (ss, [Error ''Not authenticated''])
      else (ss, [ConnectionTestResult]))"

text \<open>The \<open>ping\<close> handler: a failing update is logged only.\<close>

definition ping :: "env \<Rightarrow> socket \<times> store \<Rightarrow> (socket \<times> store) \<times> emitted list" where
  "ping e ss =
     (case ss of (s, st) \<Rightarrow>
      if unauthenticated s then (ss, [Pong])
      else (case update_ping (e_failing e UpdatePing) (e_now e) st (s_id s) of
              Inl err \<Rightarrow> (ss, [Pong])
            | Inr st' \<Rightarrow> ((s, st'), [Pong])))"

text \<open>The \<open>disconnect\<close> handler.\<close>

definition disconnect :: "env \<Rightarrow> socket \<times> store \<Rightarrow> socket \<times> store" where
  "disconnect e ss =
     (case ss of (s, st) \<Rightarrow>
      (case update_disconnect (e_failing e UpdateDisconnect) st (s_id s) of
         Inl err \<Rightarrow> ss
       | Inr st' \<Rightarrow> (s, st')))"

text \<open>One run of the cleanup timer: a failing delete is logged only.\<close>

definition sweep :: "env \<Rightarrow> store \<Rightarrow> store" where
  "sweep e st =
     (case delete_stale (e_failing e DeleteStale) (e_now e) st of
        Inl err \<Rightarrow> st
      | Inr st' \<Rightarrow> st')"

section \<open>Notions of the specification\<close>

text \<open>
  The number of usage records of a tenant created on or after the start of the current
  UTC calendar day.
\<close>

definition usage_today :: "timestamp \<Rightarrow> store \<Rightarrow> uuid \<Rightarrow> nat" where
  "usage_today now st tid =
     length (filter (\<lambda>u. ul_tenant_id u = tid \<and> now - now mod ms_per_day \<le> ul_created_at u)
       (api_usage_logs st))"

text \<open>
  The credential \<open>k\<close> is the text of the secondary key \<open>a\<close>, which tenant \<open>t\<close> owns:
  \<open>a\<close> is the one row of \<open>api_keys\<close> with that text (the column is UNIQUE), \<open>t\<close> the
  one tenant with the owner's id (the primary key), and \<open>k\<close> is not at the same time the
  primary key of a tenant.
\<close>

definition secondary_key_of :: "store \<Rightarrow> string \<Rightarrow> api_key_row \<Rightarrow> tenant \<Rightarrow> bool" where
  "secondary_key_of st k a t =
     (filter (\<lambda>a'. ak_api_key a' = k) (api_keys st) = [a] \<and>
      filter (\<lambda>t'. t_id t' = ak_tenant_id a) (tenants st) = [t] \<and>
      k \<notin> set (map t_api_key (tenants st)))"

text \<open>The request presents \<open>k\<close> as its credential, and \<open>k\<close> is not shaped like a token.\<close>

definition opaque_credential :: "request \<Rightarrow> string \<Rightarrow> bool" where
  "opaque_credential req k = (extract_api_key req = Some k \<and> k \<noteq> [] \<and> take 3 k \<noteq> ''eyJ'')"

text \<open>
  Credential resolution (lines 12 to 84) succeeds on the request with the row \<open>row\<close>:
  the credential is an opaque key, the lookup returns and puts \<open>row\<close> first, the
  expiry of \<open>row\<close> is not in the past, and the last-used update, where one is made,
  returns.
\<close>

definition resolved :: "env \<Rightarrow> store \<Rightarrow> request \<Rightarrow> string \<Rightarrow> key_row \<Rightarrow> bool" where
  "resolved e st req k row =
     (opaque_credential req k \<and>
      (case select_tenant_by_key (e_failing e SelectTenantByKey) st k of
         Inl err \<Rightarrow> False
       | Inr [] \<Rightarrow> False
       | Inr (r # rs) \<Rightarrow> r = row) \<and>
      (case kr_expires_at row of None \<Rightarrow> True | Some x \<Rightarrow> e_now e \<le> x) \<and>
      (if js_truthy_num (kr_api_key_rate_limit row) then \<not> e_failing e UpdateLastUsed else True))"

text \<open>The key has no expiry, or its expiry is not in the past.\<close>

definition unexpired :: "timestamp \<Rightarrow> api_key_row \<Rightarrow> bool" where
  "unexpired now a = (case ak_expires_at a of None \<Rightarrow> True | Some x \<Rightarrow> now \<le> x)"

text \<open>
  The permission set attached to the request grants the named capability: it has a
  truthy member of that name.
\<close>

definition grants :: "req_tenant \<Rightarrow> string \<Rightarrow> bool" where
  "grants rt name = (case rt_permissions rt of None \<Rightarrow> False | Some p \<Rightarrow> truthy (map_of p name))"

text \<open>The store with the active flag of every secondary key overwritten.\<close>

definition set_flags :: "(api_key_row \<Rightarrow> bool) \<Rightarrow> store \<Rightarrow> store" where
  "set_flags f st = st\<lparr>api_keys := map (\<lambda>a. a\<lparr>ak_is_active := f a\<rparr>) (api_keys st)\<rparr>"

text \<open>The rows of the connection registry that carry a connection id.\<close>

definition rows_of :: "string \<Rightarrow> store \<Rightarrow> connection list" where
  "rows_of cid st = filter (\<lambda>c. c_connection_id c = cid) (realtime_connections st)"

section \<open>Example data\<close>

text \<open>
  One tenant with a daily quota of 2, a secondary key that is switched off, a
  secondary key that expired a millisecond before noon, and a request at noon UTC of
  4 October 2024.
\<close>

definition noon :: timestamp where
  "noon = 1728043200000"

definition acme :: tenant where
  "acme = \<lparr>t_id = ''t-acme'', t_name = ''Acme'', t_subdomain = ''acme'', t_api_key = ''pk_acme'',
            t_plan = ''basic'', t_max_endpoints = Some 10, t_max_requests_per_day = Some 2,
            t_is_active = True\<rparr>"

definition ci_key :: api_key_row where
  "ci_key = \<lparr>ak_tenant_id = ''t-acme'', ak_key_name = ''ci'', ak_api_key = ''sk_acme_ci'',
              ak_permissions = Some [(''read'', JBool True)], ak_rate_limit = Some 5,
              ak_is_active = False, ak_expires_at = None, ak_last_used_at = None\<rparr>"

definition old_key :: api_key_row where
  "old_key = \<lparr>ak_tenant_id = ''t-acme'', ak_key_name = ''old'', ak_api_key = ''sk_acme_old'',
               ak_permissions = Some [], ak_rate_limit = Some 100,
               ak_is_active = True, ak_expires_at = Some (noon - 1), ak_last_used_at = None\<rparr>"

definition hit :: "timestamp \<Rightarrow> usage_log" where
  "hit at = \<lparr>ul_tenant_id = ''t-acme'', ul_request_method = ''GET'',
              ul_request_path = ''/api/tenant/endpoints'', ul_ip_address = ''10.0.0.7'',
              ul_user_agent = None, ul_api_key_used = ''pk_acme...'', ul_created_at = at\<rparr>"

definition shop :: "usage_log list \<Rightarrow> store" where
  "shop logs = \<lparr>tenants = [acme], api_keys = [ci_key, old_key], api_usage_logs = logs,
                 realtime_connections = []\<rparr>"

definition calm :: env where
  "calm = \<lparr>e_now = noon,
            e_jwt_verify = (\<lambda>tok. if tok = ''eyJ.acme''
                                   then Some \<lparr>jp_tenantId = ''t-acme'', jp_plan = ''basic''\<rparr>
                                   else None),
            e_failing = (\<lambda>q. False)\<rparr>"

definition outage :: "query \<Rightarrow> env" where
  "outage q = calm\<lparr>e_failing := (\<lambda>q'. q' = q)\<rparr>"

definition with_key :: "string \<Rightarrow> request" where
  "with_key k = \<lparr>rq_x_api_key = Some k, rq_authorization = None, rq_query_api_key = None,
                  rq_method = ''GET'', rq_path = ''/api/tenant/endpoints'', rq_ip = ''10.0.0.7'',
                  rq_user_agent = None\<rparr>"

definition member :: "string \<Rightarrow> permission_set \<Rightarrow> req_context" where
  "member plan perms =
     \<lparr>rc_tenant = TenantInfo
        \<lparr>ti_id = ''t-acme'', ti_name = ''Acme'', ti_subdomain = ''acme'', ti_plan = plan,
         ti_max_endpoints = Some 10, ti_max_requests_per_day = Some 2, ti_permissions = perms,
         ti_rate_limit = Some 2\<rparr>,
      rc_authMethod = ''api_key'', rc_apiKey = Some ''pk_acme'', rc_startTime = Some noon\<rparr>"

text \<open>
  A socket that has not joined, a registry row of the example tenant, a store with a given
  registry, and the environment one minute after noon.
\<close>

definition fresh_socket :: socket where
  "fresh_socket = \<lparr>s_id = ''sock-1'', s_tenantId = None, s_tenant = None, s_rooms = []\<rparr>"

definition conn :: "string \<Rightarrow> timestamp \<Rightarrow> bool \<Rightarrow> connection" where
  "conn cid pinged active =
     \<lparr>c_tenant_id = ''t-acme'', c_connection_id = cid, c_socket_id = cid,
      c_user_info = noon - 3600000, c_connected_at = noon - 3600000,
      c_last_ping_at = pinged, c_is_active = active\<rparr>"

definition lounge :: "connection list \<Rightarrow> store" where
  "lounge cs = \<lparr>tenants = [acme], api_keys = [ci_key, old_key], api_usage_logs = [],
                 realtime_connections = cs\<rparr>"

definition later :: env where
  "later = calm\<lparr>e_now := noon + 60000\<rparr>"

section \<open>Lemmas\<close>

lemmas example_defs = noon_def acme_def ci_key_def old_key_def hit_def shop_def calm_def
  outage_def with_key_def

lemmas auth_defs = authenticateTenant_def authenticate_jwt_def authenticate_api_key_def
  admit_def checkRateLimit_def logAPIUsage_def extract_api_key_def
  select_tenant_by_id_def select_tenant_by_key_def left_join_keys_def update_last_used_def
  set_last_used_def count_usage_def insert_usage_def js_or_str_def js_or_num_def
  js_truthy_num_def js_lt_num_def
  js_string_of_num_def js_string_of_int_def api_key_used_def rate_limit_body_def
  utc_date_def date_to_timestamp_def ms_per_day_def

lemma digits_of_2: "digits_of 2 = ''2''"
  by (simp add: digits_of.simps)

lemma day_start: "date_to_timestamp (utc_date t) = t - t mod ms_per_day"
  by (simp add: date_to_timestamp_def utc_date_def minus_mod_eq_div_mult)

lemma count_usage_today:
  "count_usage False st tid (date_to_timestamp (utc_date now)) = Inr (int (usage_today now st tid))"
  by (simp add: count_usage_def usage_today_def day_start)

lemma checkRateLimit_returns:
  "\<not> e_failing e CountUsage \<Longrightarrow>
   checkRateLimit e st tid lim =
     \<lparr>rl_allowed = js_lt_num (int (usage_today (e_now e) st tid)) lim,
      rl_current = int (usage_today (e_now e) st tid), rl_limit = lim,
      rl_resetTime = Some (e_now e + ms_per_day)\<rparr>"
  by (simp add: checkRateLimit_def count_usage_today ms_per_day_def)

lemma checkRateLimit_throws:
  "e_failing e CountUsage \<Longrightarrow>
   checkRateLimit e st tid lim =
     \<lparr>rl_allowed = True, rl_current = 0, rl_limit = lim, rl_resetTime = None\<rparr>"
  by (simp add: checkRateLimit_def count_usage_def)

lemma join_rows:
  assumes "filter (\<lambda>a'. ak_api_key a' = k) aks = [a]"
  shows "filter (\<lambda>a'. i = ak_tenant_id a' \<and> ak_api_key a' = k) aks =
         (if i = ak_tenant_id a then [a] else [])"
proof -
  have "filter (\<lambda>a'. i = ak_tenant_id a' \<and> ak_api_key a' = k) aks =
        filter (\<lambda>a'. i = ak_tenant_id a') (filter (\<lambda>a'. ak_api_key a' = k) aks)"
    by (simp add: conj_commute)
  then show ?thesis using assms by simp
qed

lemma key_lookup_rows:
  assumes "filter (\<lambda>a'. ak_api_key a' = k) (api_keys st) = [a]"
      and "k \<notin> set (map t_api_key ts)"
  shows "filter (key_where k) (concat (map (\<lambda>t.
       (case filter (\<lambda>a. t_id t = ak_tenant_id a \<and> ak_api_key a = k) (api_keys st) of
          [] \<Rightarrow> [(t, None)]
        | a # as \<Rightarrow> map (\<lambda>a'. (t, Some a')) (a # as))) ts)) =
     map (\<lambda>t. (t, Some a)) (filter (\<lambda>t. t_is_active t) (filter (\<lambda>t. t_id t = ak_tenant_id a) ts))"
  using assms(2)
proof (induction ts)
  case Nil
  then show ?case by simp
next
  case (Cons t ts)
  have "a \<in> set (filter (\<lambda>a'. ak_api_key a' = k) (api_keys st))"
    using assms(1) by simp
  then have ka: "ak_api_key a = k" by simp
  show ?case using Cons by (cases "t_id t = ak_tenant_id a") (auto simp: join_rows [OF assms(1)] ka)
qed

lemma select_secondary_key:
  assumes "secondary_key_of st k a t" and "t_is_active t"
  shows "select_tenant_by_key False st k = Inr [key_columns (t, Some a)]"
  using assms key_lookup_rows [of k st a "tenants st"]
  by (simp add: select_tenant_by_key_def left_join_keys_def secondary_key_of_def)

lemma admit_over_quota:
  assumes "\<not> e_failing e CountUsage"
      and "js_or_num (kr_api_key_rate_limit row) (t_max_requests_per_day (kr_tenant row)) = Some L"
      and "L \<le> int (usage_today (e_now e) st (t_id (kr_tenant row)))"
  shows "admit e st req k row =
     (Status 429 \<lparr>b_error = ''Rate limit exceeded'',
        b_message = ''Rate limit of '' @ js_string_of_int L @ '' requests per day exceeded'',
        b_resetTime = Some (e_now e + ms_per_day)\<rparr>, st)"
  using assms
  by (simp add: admit_def checkRateLimit_returns js_lt_num_def rate_limit_body_def
      js_string_of_num_def)

lemma admit_allowed:
  assumes "rl_allowed (checkRateLimit e st (t_id (kr_tenant row))
             (js_or_num (kr_api_key_rate_limit row) (t_max_requests_per_day (kr_tenant row))))"
  shows "\<exists>ctx st'. admit e st req k row = (Next ctx, st')"
  using assms by (simp add: admit_def Let_def)

lemma resolved_request:
  assumes "resolved e st req k row"
  shows "authenticateTenant e st req =
           admit e (if js_truthy_num (kr_api_key_rate_limit row)
                    then set_last_used (e_now e) k st else st) req k row"
proof -
  from assms obtain rs where
    sel: "select_tenant_by_key (e_failing e SelectTenantByKey) st k = Inr (row # rs)"
    by (auto simp: resolved_def split: sum.splits list.splits)
  from assms have exp: "\<not> (case kr_expires_at row of None \<Rightarrow> False | Some x \<Rightarrow> x < e_now e)"
    by (auto simp: resolved_def split: option.splits)
  from assms have upd: "js_truthy_num (kr_api_key_rate_limit row) \<Longrightarrow> \<not> e_failing e UpdateLastUsed"
    by (simp add: resolved_def split: if_splits)
  from assms have cred: "extract_api_key req = Some k" "k \<noteq> []" "take 3 k \<noteq> ''eyJ''"
    by (simp_all add: resolved_def opaque_credential_def)
  show ?thesis
    using exp upd
    by (simp add: authenticateTenant_def authenticate_api_key_def cred sel update_last_used_def)
qed

lemma usage_today_set_last_used:
  "usage_today now (set_last_used now' k st) tid = usage_today now st tid"
  by (simp add: usage_today_def set_last_used_def)

lemma jwt_no_quota: "fst (authenticate_jwt e st k) \<noteq> Status 429 b"
  by (simp add: authenticate_jwt_def split: option.splits sum.splits list.splits)

lemma jwt_store: "snd (authenticate_jwt e st k) = st"
  by (simp add: authenticate_jwt_def split: option.splits sum.splits list.splits)

lemma api_key_fail_open:
  assumes "e_failing e CountUsage"
  shows "fst (authenticate_api_key e st req k) \<noteq> Status 429 b"
proof -
  have adm: "fst (admit e s req k row) \<noteq> Status 429 b" for s row
    using admit_allowed [of e s row req k] assms
    by (auto simp: checkRateLimit_throws)
  show ?thesis
    by (simp add: authenticate_api_key_def adm split: sum.splits list.splits)
qed

lemma secondary_key_request:
  assumes "opaque_credential req k" and "\<not> e_failing e SelectTenantByKey"
      and "secondary_key_of st k a t" and "t_is_active t"
  shows "authenticateTenant e st req =
     (if (case ak_expires_at a of None \<Rightarrow> False | Some x \<Rightarrow> x < e_now e)
      then (Status 401 expired_key_body, st)
      else if js_truthy_num (ak_rate_limit a)
      then (if e_failing e UpdateLastUsed then (Status 500 auth_failed_body, st)
            else admit e (set_last_used (e_now e) k st) req k (key_columns (t, Some a)))
      else admit e st req k (key_columns (t, Some a)))"
  using assms select_secondary_key [of st k a t]
  by (simp add: authenticateTenant_def authenticate_api_key_def opaque_credential_def
      update_last_used_def set_last_used_def)

lemma admit_outcome:
  "fst (admit e st req k row) =
     (let r = checkRateLimit e st (t_id (kr_tenant row))
               (js_or_num (kr_api_key_rate_limit row) (t_max_requests_per_day (kr_tenant row)))
      in if rl_allowed r
         then Next \<lparr>rc_tenant = TenantInfo
                     \<lparr>ti_id = t_id (kr_tenant row), ti_name = t_name (kr_tenant row),
                      ti_subdomain = t_subdomain (kr_tenant row),
                      ti_plan = t_plan (kr_tenant row),
                      ti_max_endpoints = t_max_endpoints (kr_tenant row),
                      ti_max_requests_per_day = t_max_requests_per_day (kr_tenant row),
                      ti_permissions = (case kr_permissions row of None \<Rightarrow> [] | Some p \<Rightarrow> p),
                      ti_rate_limit = js_or_num (kr_api_key_rate_limit row)
                                        (t_max_requests_per_day (kr_tenant row))\<rparr>,
                   rc_authMethod = ''api_key'', rc_apiKey = Some k,
                   rc_startTime = Some (e_now e)\<rparr>
         else Status 429 (rate_limit_body r))"
  by (simp add: admit_def logAPIUsage_def Let_def split: sum.splits)

lemma checkRateLimit_logs:
  "api_usage_logs s1 = api_usage_logs s2 \<Longrightarrow> checkRateLimit e s1 tid lim = checkRateLimit e s2 tid lim"
  by (simp add: checkRateLimit_def count_usage_def)

lemma admit_outcome_logs:
  "api_usage_logs s1 = api_usage_logs s2 \<Longrightarrow> fst (admit e s1 req k row) = fst (admit e s2 req k row)"
  by (simp add: admit_outcome checkRateLimit_logs [of s1 s2])

lemma left_join_flags:
  "left_join_keys (set_flags f st) k =
     map (\<lambda>(t, m). (t, map_option (\<lambda>a. a\<lparr>ak_is_active := f a\<rparr>) m)) (left_join_keys st k)"
proof -
  have flt: "filter (\<lambda>a. i = ak_tenant_id a \<and> ak_api_key a = k)
               (map (\<lambda>a. a\<lparr>ak_is_active := f a\<rparr>) xs) =
             map (\<lambda>a. a\<lparr>ak_is_active := f a\<rparr>)
               (filter (\<lambda>a. i = ak_tenant_id a \<and> ak_api_key a = k) xs)" for i xs
    by (simp add: filter_map comp_def)
  have row: "(case map (\<lambda>a. a\<lparr>ak_is_active := f a\<rparr>) ys of
                [] \<Rightarrow> [(t, None)]
              | a # as \<Rightarrow> map (\<lambda>a'. (t, Some a')) (a # as)) =
             map (\<lambda>(t, m). (t, map_option (\<lambda>a. a\<lparr>ak_is_active := f a\<rparr>) m))
               (case ys of [] \<Rightarrow> [(t, None)] | a # as \<Rightarrow> map (\<lambda>a'. (t, Some a')) (a # as))"
    for t :: tenant and ys
    by (cases ys) simp_all
  show ?thesis
    by (simp add: left_join_keys_def set_flags_def flt map_concat comp_def row)
qed

lemma select_by_key_flags:
  "select_tenant_by_key fail (set_flags f st) k = select_tenant_by_key fail st k"
proof -
  have "map key_columns (filter (key_where k)
          (map (\<lambda>(t, m). (t, map_option (\<lambda>a. a\<lparr>ak_is_active := f a\<rparr>) m)) xs)) =
        map key_columns (filter (key_where k) xs)" for xs
  proof (induction xs)
    case Nil
    then show ?case by simp
  next
    case (Cons x xs)
    obtain t m where x: "x = (t, m)" by (cases x)
    show ?case using Cons by (cases m) (simp_all add: x)
  qed
  then show ?thesis by (simp add: select_tenant_by_key_def left_join_flags)
qed

lemma flags_irrelevant:
  "fst (authenticateTenant e (set_flags f st) req) = fst (authenticateTenant e st req)"
proof -
  have jwt: "fst (authenticate_jwt e (set_flags f st) k) = fst (authenticate_jwt e st k)" for k
    by (simp add: authenticate_jwt_def select_tenant_by_id_def set_flags_def
        split: option.splits list.splits)
  have upd: "update_last_used fl now s k = (if fl then Inl QueryFailed else Inr (set_last_used now k s))"
    for fl now s k
    by (simp add: update_last_used_def set_last_used_def)
  have a1: "fst (admit e (set_last_used (e_now e) k (set_flags f st)) req k row) =
            fst (admit e (set_last_used (e_now e) k st) req k row)" for k row
    by (rule admit_outcome_logs) (simp add: set_last_used_def set_flags_def)
  have a2: "fst (admit e (set_flags f st) req k row) = fst (admit e st req k row)" for k row
    by (rule admit_outcome_logs) (simp add: set_flags_def)
  have key: "fst (authenticate_api_key e (set_flags f st) req k) =
             fst (authenticate_api_key e st req k)" for k
    by (simp add: authenticate_api_key_def select_by_key_flags upd a1 a2
        split: sum.splits list.splits)
  show ?thesis
    by (simp add: authenticateTenant_def jwt key split: option.splits)
qed

lemma shop_secondary_ci: "secondary_key_of (shop logs) ''sk_acme_ci'' ci_key acme"
  by (simp add: secondary_key_of_def example_defs)

lemma shop_secondary_old: "secondary_key_of (shop logs) ''sk_acme_old'' old_key acme"
  by (simp add: secondary_key_of_def example_defs)

lemma opaque_with_key: "k \<noteq> [] \<Longrightarrow> take 3 k \<noteq> ''eyJ'' \<Longrightarrow> opaque_credential (with_key k) k"
  by (simp add: opaque_credential_def extract_api_key_def js_or_str_def with_key_def)

lemmas socket_defs = join_tenant_def execute_query_def test_connection_def ping_def
  disconnect_def sweep_def select_tenant_for_join_def upsert_connection_def update_ping_def
  update_disconnect_def delete_stale_def stale_def ten_minutes_def unauthenticated_def
  room_of_def

lemmas socket_example_defs = fresh_socket_def conn_def lounge_def later_def

lemma single_row:
  "distinct (map f xs) \<Longrightarrow> list_ex (\<lambda>x. f x = v) xs \<Longrightarrow> \<exists>x. filter (\<lambda>x. f x = v) xs = [x]"
proof (induction xs)
  case Nil
  then show ?case by simp
next
  case (Cons y ys)
  show ?case
  proof (cases "f y = v")
    case True
    with Cons.prems(1) have "filter (\<lambda>x. f x = v) ys = []"
      by (force simp: filter_empty_conv image_iff)
    with True show ?thesis by simp
  next
    case False
    with Cons show ?thesis by simp
  qed
qed

lemma upsert_rows:
  assumes "distinct (map c_connection_id (realtime_connections st))"
      and "upsert_connection False now st tid cid sid info = Inr st'"
  shows "(\<exists>c. rows_of cid st' = [c] \<and> c_last_ping_at c = now \<and> c_is_active c) \<and>
         distinct (map c_connection_id (realtime_connections st')) \<and>
         tenants st' = tenants st \<and>
         length (realtime_connections st') =
           (if rows_of cid st = [] then Suc (length (realtime_connections st))
            else length (realtime_connections st))"
proof (cases "list_ex (\<lambda>c. c_connection_id c = cid) (realtime_connections st)")
  case True
  let ?upd = "\<lambda>c. if c_connection_id c = cid then c\<lparr>c_last_ping_at := now, c_is_active := True\<rparr> else c"
  from True assms(2) have st': "st' = st\<lparr>realtime_connections := map ?upd (realtime_connections st)\<rparr>"
    by (simp add: upsert_connection_def)
  have ids: "map c_connection_id (map ?upd xs) = map c_connection_id xs" for xs :: "connection list"
    by (induction xs) simp_all
  have flt: "filter (\<lambda>c. c_connection_id c = cid) (map ?upd xs) =
             map (\<lambda>c. c\<lparr>c_last_ping_at := now, c_is_active := True\<rparr>)
               (filter (\<lambda>c. c_connection_id c = cid) xs)" for xs :: "connection list"
    by (induction xs) simp_all
  obtain c0 where c0: "filter (\<lambda>c. c_connection_id c = cid) (realtime_connections st) = [c0]"
    using single_row [OF assms(1) True] by blast
  show ?thesis
    using assms(1) c0 by (simp add: st' rows_of_def flt ids del: map_map)
next
  case False
  then have none: "filter (\<lambda>c. c_connection_id c = cid) (realtime_connections st) = []"
    by (auto simp: filter_empty_conv list_ex_iff)
  from False assms(2) have st': "st' = st\<lparr>realtime_connections := realtime_connections st @
             [\<lparr>c_tenant_id = tid, c_connection_id = cid, c_socket_id = sid, c_user_info = info,
               c_connected_at = now, c_last_ping_at = now, c_is_active = True\<rparr>]\<rparr>"
    by (simp add: upsert_connection_def)
  have "cid \<notin> set (map c_connection_id (realtime_connections st))"
    using False by (auto simp: list_ex_iff)
  then show ?thesis
    using assms(1) none by (simp add: st' rows_of_def)
qed

lemma join_ok:
  assumes "t \<in> set (tenants st)" and "t_id t = tenantId" and "t_api_key t = apiKey"
      and "t_is_active t"
      and "\<not> e_failing e SelectTenantForJoin" and "\<not> e_failing e UpsertConnection"
  shows "\<exists>s' st' out. join_tenant e tenantId apiKey (s, st) = ((s', st'), out) \<and>
           s_id s' = s_id s \<and> s_tenantId s' = Some tenantId \<and>
           upsert_connection False (e_now e) st tenantId (s_id s) (s_id s) (e_now e) = Inr st'"
proof -
  have "t \<in> set (filter (\<lambda>t. t_id t = tenantId \<and> t_api_key t = apiKey \<and> t_is_active t) (tenants st))"
    using assms(1-4) by simp
  then obtain row rows where
    "filter (\<lambda>t. t_id t = tenantId \<and> t_api_key t = apiKey \<and> t_is_active t) (tenants st) = row # rows"
    by (cases "filter (\<lambda>t. t_id t = tenantId \<and> t_api_key t = apiKey \<and> t_is_active t) (tenants st)") auto
  then show ?thesis
    using assms(5,6)
    by (simp add: join_tenant_def select_tenant_for_join_def upsert_connection_def Let_def)
qed

lemma failed_lookup_keeps_socket:
  assumes "select_tenant_for_join (e_failing e SelectTenantForJoin) st tenantId apiKey = Inl err \<or>
           select_tenant_for_join (e_failing e SelectTenantForJoin) st tenantId apiKey = Inr []"
  shows "fst (join_tenant e tenantId apiKey (s, st)) = (s, st)"
  using assms by (auto simp: join_tenant_def)

lemma mismatch_stays_connected:
  assumes "s_tenantId s = None"
      and "\<not> list_ex (\<lambda>t. t_id t = tenantId \<and> t_api_key t = apiKey \<and> t_is_active t) (tenants st)"
  shows "fst (join_tenant e tenantId apiKey (s, st)) = (s, st) \<and>
         snd (execute_query (fst (join_tenant e tenantId apiKey (s, st)))) =
           [Error ''Not authenticated''] \<and>
         snd (test_connection (fst (join_tenant e tenantId apiKey (s, st)))) =
           [Error ''Not authenticated'']"
proof -
  have "filter (\<lambda>t. t_id t = tenantId \<and> t_api_key t = apiKey \<and> t_is_active t) (tenants st) = []"
    using assms(2) by (auto simp: filter_empty_conv list_ex_iff)
  then have "fst (join_tenant e tenantId apiKey (s, st)) = (s, st)"
    by (simp add: join_tenant_def select_tenant_for_join_def)
  then show ?thesis
    using assms(1) by (simp add: execute_query_def test_connection_def unauthenticated_def)
qed

lemma token_path_not_limited:
  assumes "extract_api_key req = Some k" and "take 3 k = ''eyJ''"
  shows "fst (authenticateTenant e st req) \<noteq> Status 429 b \<and> snd (authenticateTenant e st req) = st"
proof -
  have "k \<noteq> []" using assms(2) by auto
  then show ?thesis
    using assms by (simp add: authenticateTenant_def jwt_no_quota jwt_store)
qed

section \<open>The quota enforcer\<close>

text \<open>
  Claim C2. When the count query returns, a request whose tenant is resolved with
  effective daily limit \<open>L\<close> is admitted exactly when the number of the tenant's usage
  records created since the start of the current UTC day is below \<open>L\<close>: below \<open>L\<close>
  the request is passed on, from \<open>L\<close> on it is answered 429 with a message that
  carries \<open>L\<close>, and no usage record is written.
\<close>

theorem quota_admission:
  assumes "\<not> e_failing e CountUsage"
      and "resolved e st req k row"
      and "js_or_num (kr_api_key_rate_limit row) (t_max_requests_per_day (kr_tenant row)) = Some L"
  shows "(rl_allowed (checkRateLimit e st (t_id (kr_tenant row)) (Some L)) \<longleftrightarrow>
            int (usage_today (e_now e) st (t_id (kr_tenant row))) < L) \<and>
         rl_limit (checkRateLimit e st (t_id (kr_tenant row)) (Some L)) = Some L \<and>
         (int (usage_today (e_now e) st (t_id (kr_tenant row))) < L \<longrightarrow>
            (\<exists>ctx st'. authenticateTenant e st req = (Next ctx, st'))) \<and>
         (L \<le> int (usage_today (e_now e) st (t_id (kr_tenant row))) \<longrightarrow>
            fst (authenticateTenant e st req) =
              Status 429 \<lparr>b_error = ''Rate limit exceeded'',
                b_message = ''Rate limit of '' @ js_string_of_int L @ '' requests per day exceeded'',
                b_resetTime = Some (e_now e + ms_per_day)\<rparr> \<and>
            api_usage_logs (snd (authenticateTenant e st req)) = api_usage_logs st)"
proof -
  let ?st = "if js_truthy_num (kr_api_key_rate_limit row) then set_last_used (e_now e) k st else st"
  let ?n = "int (usage_today (e_now e) st (t_id (kr_tenant row)))"
  have run: "authenticateTenant e st req = admit e ?st req k row"
    using assms(2) by (rule resolved_request)
  have cnt: "int (usage_today (e_now e) ?st (t_id (kr_tenant row))) = ?n"
    by (simp add: usage_today_set_last_used)
  have logs: "api_usage_logs ?st = api_usage_logs st"
    by (simp add: set_last_used_def)
  have chk: "rl_allowed (checkRateLimit e s (t_id (kr_tenant row)) (Some L)) \<longleftrightarrow>
               int (usage_today (e_now e) s (t_id (kr_tenant row))) < L" for s
    using assms(1) by (simp add: checkRateLimit_returns js_lt_num_def)
  have lim: "rl_limit (checkRateLimit e st (t_id (kr_tenant row)) (Some L)) = Some L"
    using assms(1) by (simp add: checkRateLimit_returns)
  have under: "\<exists>ctx st'. authenticateTenant e st req = (Next ctx, st')" if "?n < L"
  proof -
    from that have "rl_allowed (checkRateLimit e ?st (t_id (kr_tenant row)) (Some L))"
      using chk [of ?st] cnt by simp
    then show ?thesis
      using admit_allowed [of e ?st row req k] assms(3) by (simp add: run)
  qed
  have over: "fst (authenticateTenant e st req) =
                Status 429 \<lparr>b_error = ''Rate limit exceeded'',
                  b_message = ''Rate limit of '' @ js_string_of_int L @ '' requests per day exceeded'',
                  b_resetTime = Some (e_now e + ms_per_day)\<rparr> \<and>
              api_usage_logs (snd (authenticateTenant e st req)) = api_usage_logs st" if "L \<le> ?n"
  proof -
    from that cnt have "L \<le> int (usage_today (e_now e) ?st (t_id (kr_tenant row)))" by simp
    from admit_over_quota [OF assms(1) assms(3) this, of req k] show ?thesis
      by (simp add: run logs)
  qed
  show ?thesis using chk [of st] lim under over by blast
qed

theorem quota_admission_witness:
  "\<not> e_failing calm CountUsage \<and>
   resolved calm (shop [hit (noon - ms_per_day), hit noon, hit noon]) (with_key ''pk_acme'')
     ''pk_acme'' (key_columns (acme, None)) \<and>
   js_or_num (kr_api_key_rate_limit (key_columns (acme, None)))
     (t_max_requests_per_day (kr_tenant (key_columns (acme, None)))) = Some 2 \<and>
   usage_today (e_now calm) (shop [hit (noon - ms_per_day)]) ''t-acme'' = 0 \<and>
   usage_today (e_now calm) (shop [hit (noon - ms_per_day), hit noon]) ''t-acme'' = 1 \<and>
   usage_today (e_now calm) (shop [hit (noon - ms_per_day), hit noon, hit noon]) ''t-acme'' = 2 \<and>
   snd (authenticateTenant calm (shop [hit (noon - ms_per_day)]) (with_key ''pk_acme'')) =
     shop [hit (noon - ms_per_day), hit noon] \<and>
   snd (authenticateTenant calm (shop [hit (noon - ms_per_day), hit noon]) (with_key ''pk_acme'')) =
     shop [hit (noon - ms_per_day), hit noon, hit noon] \<and>
   authenticateTenant calm (shop [hit (noon - ms_per_day), hit noon, hit noon]) (with_key ''pk_acme'') =
     (Status 429 \<lparr>b_error = ''Rate limit exceeded'',
        b_message = ''Rate limit of 2 requests per day exceeded'',
        b_resetTime = Some (noon + ms_per_day)\<rparr>,
      shop [hit (noon - ms_per_day), hit noon, hit noon])"
proof -
  have h1: "\<not> e_failing calm CountUsage" by (simp add: calm_def)
  have h2: "js_or_num (kr_api_key_rate_limit (key_columns (acme, None)))
     (t_max_requests_per_day (kr_tenant (key_columns (acme, None)))) = Some 2"
    by (simp add: js_or_num_def js_truthy_num_def acme_def)
  have h3: "usage_today (e_now calm) (shop [hit (noon - ms_per_day), hit noon, hit noon]) ''t-acme'' = 2"
    by (simp add: usage_today_def example_defs ms_per_day_def)
  have h4: "usage_today (e_now calm) (shop [hit (noon - ms_per_day)]) ''t-acme'' = 0"
    by (simp add: usage_today_def example_defs ms_per_day_def)
  have h5: "usage_today (e_now calm) (shop [hit (noon - ms_per_day), hit noon]) ''t-acme'' = 1"
    by (simp add: usage_today_def example_defs ms_per_day_def)
  have h6: "resolved calm (shop [hit (noon - ms_per_day), hit noon, hit noon]) (with_key ''pk_acme'')
     ''pk_acme'' (key_columns (acme, None))"
    by (simp add: resolved_def opaque_with_key select_tenant_by_key_def left_join_keys_def
        js_truthy_num_def acme_def ci_key_def old_key_def shop_def calm_def outage_def)
  have tid: "t_id acme = ''t-acme''"
    by (simp add: acme_def)
  have now: "e_now calm = noon" by (simp add: calm_def)
  have d2: "js_string_of_int 2 = ''2''" by (simp add: js_string_of_int_def digits_of_2)
  have r1: "snd (authenticateTenant calm (shop [hit (noon - ms_per_day)]) (with_key ''pk_acme'')) =
     shop [hit (noon - ms_per_day), hit noon]"
    by (simp add: auth_defs example_defs)
  have r2: "snd (authenticateTenant calm (shop [hit (noon - ms_per_day), hit noon]) (with_key ''pk_acme'')) =
     shop [hit (noon - ms_per_day), hit noon, hit noon]"
    by (simp add: auth_defs example_defs)
  have r3: "authenticateTenant calm (shop [hit (noon - ms_per_day), hit noon, hit noon]) (with_key ''pk_acme'') =
     (Status 429 \<lparr>b_error = ''Rate limit exceeded'',
        b_message = ''Rate limit of 2 requests per day exceeded'',
        b_resetTime = Some (noon + ms_per_day)\<rparr>,
      shop [hit (noon - ms_per_day), hit noon, hit noon])"
    by (simp add: auth_defs example_defs digits_of_2)
  show ?thesis
    using quota_admission [OF h1 h6 h2] h1 h2 h3 h4 h5 h6 r1 r2 r3
    by (simp add: tid now d2)
qed

text \<open>
  Claim C3. When the count query throws, \<open>checkRateLimit\<close> allows the request: a
  request whose tenant is resolved is passed on, and no request at all is answered 429.
\<close>

theorem quota_fail_open:
  assumes "e_failing e CountUsage"
  shows "checkRateLimit e st tid lim =
           \<lparr>rl_allowed = True, rl_current = 0, rl_limit = lim, rl_resetTime = None\<rparr> \<and>
         (resolved e st req k row \<longrightarrow> (\<exists>ctx st'. authenticateTenant e st req = (Next ctx, st'))) \<and>
         (\<forall>b. fst (authenticateTenant e st req) \<noteq> Status 429 b)"
proof (intro conjI allI impI)
  show "checkRateLimit e st tid lim =
          \<lparr>rl_allowed = True, rl_current = 0, rl_limit = lim, rl_resetTime = None\<rparr>"
    using assms by (rule checkRateLimit_throws)
  show "\<exists>ctx st'. authenticateTenant e st req = (Next ctx, st')" if "resolved e st req k row"
    using assms that by (simp add: resolved_request admit_allowed checkRateLimit_throws)
  show "fst (authenticateTenant e st req) \<noteq> Status 429 b" for b
    using assms
    by (simp add: authenticateTenant_def jwt_no_quota api_key_fail_open split: option.splits)
qed

theorem quota_fail_open_witness:
  "e_failing (outage CountUsage) CountUsage \<and>
   resolved (outage CountUsage) (shop [hit noon, hit noon]) (with_key ''pk_acme'') ''pk_acme''
     (key_columns (acme, None)) \<and>
   usage_today (e_now (outage CountUsage)) (shop [hit noon, hit noon]) ''t-acme'' = 2 \<and>
   checkRateLimit (outage CountUsage) (shop [hit noon, hit noon]) ''t-acme'' (Some 2) =
     \<lparr>rl_allowed = True, rl_current = 0, rl_limit = Some 2, rl_resetTime = None\<rparr> \<and>
   fst (authenticateTenant (outage CountUsage) (shop [hit noon, hit noon]) (with_key ''pk_acme'')) =
     Next (member ''basic'' [])"
proof -
  have h1: "e_failing (outage CountUsage) CountUsage" by (simp add: outage_def)
  have h2: "usage_today (e_now (outage CountUsage)) (shop [hit noon, hit noon]) ''t-acme'' = 2"
    by (simp add: usage_today_def example_defs ms_per_day_def)
  have run: "fst (authenticateTenant (outage CountUsage) (shop [hit noon, hit noon])
               (with_key ''pk_acme'')) = Next (member ''basic'' [])"
    by (simp add: auth_defs example_defs member_def)
  have h3: "resolved (outage CountUsage) (shop [hit noon, hit noon]) (with_key ''pk_acme'')
     ''pk_acme'' (key_columns (acme, None))"
    by (simp add: resolved_def opaque_with_key select_tenant_by_key_def left_join_keys_def
        js_truthy_num_def acme_def ci_key_def old_key_def shop_def calm_def outage_def)
  show ?thesis
    using quota_fail_open [OF h1, of "shop [hit noon, hit noon]" "''t-acme''" "Some 2"
        "with_key ''pk_acme''" "''pk_acme''" "key_columns (acme, None)"] h1 h2 h3 run
    by simp
qed

text \<open>
  Claim C1. The quota enforcer after credential resolution, for a request authenticated
  by a session token as for any other: the token branch returns through \<open>next()\<close>
  before the rate limit check. At noon the example tenant has used its daily quota of 2;
  its token is passed on and nothing is recorded, its primary key is answered 429.
\<close>

theorem token_request_skips_quota:
  "t_max_requests_per_day acme = Some 2 \<and>
   usage_today (e_now calm) (shop [hit noon, hit noon]) (t_id acme) = 2 \<and>
   authenticateTenant calm (shop [hit noon, hit noon]) (with_key ''eyJ.acme'') =
     (Next \<lparr>rc_tenant = TenantRow acme, rc_authMethod = ''jwt'', rc_apiKey = None,
            rc_startTime = None\<rparr>,
      shop [hit noon, hit noon]) \<and>
   authenticateTenant calm (shop [hit noon, hit noon]) (with_key ''pk_acme'') =
     (Status 429 \<lparr>b_error = ''Rate limit exceeded'',
        b_message = ''Rate limit of 2 requests per day exceeded'',
        b_resetTime = Some (noon + ms_per_day)\<rparr>,
      shop [hit noon, hit noon])"
  by (simp add: auth_defs example_defs usage_today_def digits_of_2)

section \<open>The credential resolver\<close>

text \<open>
  Claim C4. A credential that is a secondary key whose expiry is set and in the past is
  answered 401 \<open>API key expired\<close>, although the owning tenant is active and the key text
  matches; the store is left as it was.
\<close>

theorem expired_secondary_key:
  assumes "opaque_credential req k" and "\<not> e_failing e SelectTenantByKey"
      and "secondary_key_of st k a t" and "t_is_active t"
      and "ak_expires_at a = Some x" and "x < e_now e"
  shows "authenticateTenant e st req = (Status 401 expired_key_body, st)"
  using assms by (simp add: secondary_key_request)

theorem expired_secondary_key_witness:
  "opaque_credential (with_key ''sk_acme_old'') ''sk_acme_old'' \<and>
   \<not> e_failing calm SelectTenantByKey \<and>
   secondary_key_of (shop []) ''sk_acme_old'' old_key acme \<and> t_is_active acme \<and>
   ak_expires_at old_key = Some (noon - 1) \<and> noon - 1 < e_now calm \<and>
   authenticateTenant calm (shop []) (with_key ''sk_acme_old'') =
     (Status 401 expired_key_body, shop [])"
proof -
  have h1: "opaque_credential (with_key ''sk_acme_old'') ''sk_acme_old''"
    by (simp add: opaque_with_key)
  have h2: "\<not> e_failing calm SelectTenantByKey" by (simp add: calm_def)
  have h3: "t_is_active acme" by (simp add: acme_def)
  have h4: "ak_expires_at old_key = Some (noon - 1)" by (simp add: old_key_def)
  have h5: "noon - 1 < e_now calm" by (simp add: calm_def)
  show ?thesis
    using expired_secondary_key [OF h1 h2 shop_secondary_old h3 h4 h5, of "[]"]
      h1 h2 h3 h4 h5 shop_secondary_old [of "[]"]
    by simp
qed

text \<open>
  Claim C10. A credential that is an unexpired secondary key of an active tenant resolves
  with the key's permission set and rate limit override, whatever the key's own active
  flag: the request is passed on with them, or answered 429 with the key's limit, and
  the outcome of no request depends on the active flags of the secondary keys.
\<close>

theorem inactive_key_resolves:
  assumes "opaque_credential req k" and "\<not> e_failing e SelectTenantByKey"
      and "\<not> e_failing e UpdateLastUsed"
      and "secondary_key_of st k a t" and "t_is_active t" and "unexpired (e_now e) a"
      and "ak_rate_limit a = Some r" and "r \<noteq> 0"
  shows "(case fst (authenticateTenant e st req) of
            Next ctx \<Rightarrow>
              rc_authMethod ctx = ''api_key'' \<and> rc_apiKey ctx = Some k \<and>
              rc_tenant ctx = TenantInfo
                \<lparr>ti_id = t_id t, ti_name = t_name t, ti_subdomain = t_subdomain t,
                 ti_plan = t_plan t, ti_max_endpoints = t_max_endpoints t,
                 ti_max_requests_per_day = t_max_requests_per_day t,
                 ti_permissions = (case ak_permissions a of None \<Rightarrow> [] | Some p \<Rightarrow> p),
                 ti_rate_limit = Some r\<rparr>
          | Status n b \<Rightarrow>
              n = 429 \<and>
              b_message b = ''Rate limit of '' @ js_string_of_int r @ '' requests per day exceeded'') \<and>
         (e_failing e CountUsage \<or> int (usage_today (e_now e) st (t_id t)) < r \<longrightarrow>
            (\<exists>ctx st'. authenticateTenant e st req = (Next ctx, st'))) \<and>
         (\<forall>f. fst (authenticateTenant e (set_flags f st) req) = fst (authenticateTenant e st req))"
proof -
  let ?row = "key_columns (t, Some a)"
  let ?st = "set_last_used (e_now e) k st"
  have run: "authenticateTenant e st req = admit e ?st req k ?row"
    using assms
    by (auto simp: secondary_key_request unexpired_def js_truthy_num_def split: option.splits)
  have lim: "js_or_num (kr_api_key_rate_limit ?row) (t_max_requests_per_day (kr_tenant ?row)) = Some r"
    using assms(7,8) by (simp add: js_or_num_def js_truthy_num_def)
  have cnt: "usage_today (e_now e) ?st (t_id t) = usage_today (e_now e) st (t_id t)"
    by (simp add: usage_today_def set_last_used_def)
  have one: "case fst (admit e ?st req k ?row) of
            Next ctx \<Rightarrow>
              rc_authMethod ctx = ''api_key'' \<and> rc_apiKey ctx = Some k \<and>
              rc_tenant ctx = TenantInfo
                \<lparr>ti_id = t_id t, ti_name = t_name t, ti_subdomain = t_subdomain t,
                 ti_plan = t_plan t, ti_max_endpoints = t_max_endpoints t,
                 ti_max_requests_per_day = t_max_requests_per_day t,
                 ti_permissions = (case ak_permissions a of None \<Rightarrow> [] | Some p \<Rightarrow> p),
                 ti_rate_limit = Some r\<rparr>
          | Status n b \<Rightarrow>
              n = 429 \<and>
              b_message b = ''Rate limit of '' @ js_string_of_int r @ '' requests per day exceeded''"
    using lim
    by (simp add: admit_outcome Let_def rate_limit_body_def checkRateLimit_def
        js_string_of_num_def split: sum.splits)
  have two: "\<exists>ctx st'. admit e ?st req k ?row = (Next ctx, st')"
    if "e_failing e CountUsage \<or> int (usage_today (e_now e) st (t_id t)) < r"
  proof (rule admit_allowed)
    show "rl_allowed (checkRateLimit e ?st (t_id (kr_tenant ?row))
            (js_or_num (kr_api_key_rate_limit ?row) (t_max_requests_per_day (kr_tenant ?row))))"
    proof (cases "e_failing e CountUsage")
      case True
      then show ?thesis by (simp add: checkRateLimit_throws)
    next
      case False
      with that have "int (usage_today (e_now e) st (t_id t)) < r" by simp
      with False lim cnt show ?thesis
        by (simp add: checkRateLimit_returns js_lt_num_def)
    qed
  qed
  show ?thesis using one two by (simp add: run flags_irrelevant)
qed

theorem inactive_key_resolves_witness:
  "opaque_credential (with_key ''sk_acme_ci'') ''sk_acme_ci'' \<and>
   \<not> e_failing calm SelectTenantByKey \<and> \<not> e_failing calm UpdateLastUsed \<and>
   secondary_key_of (shop []) ''sk_acme_ci'' ci_key acme \<and> t_is_active acme \<and>
   unexpired (e_now calm) ci_key \<and> ak_rate_limit ci_key = Some 5 \<and> (5::int) \<noteq> 0 \<and>
   ak_is_active ci_key = False \<and>
   fst (authenticateTenant calm (shop []) (with_key ''sk_acme_ci'')) =
     Next \<lparr>rc_tenant = TenantInfo
             \<lparr>ti_id = ''t-acme'', ti_name = ''Acme'', ti_subdomain = ''acme'', ti_plan = ''basic'',
              ti_max_endpoints = Some 10, ti_max_requests_per_day = Some 2,
              ti_permissions = [(''read'', JBool True)], ti_rate_limit = Some 5\<rparr>,
           rc_authMethod = ''api_key'', rc_apiKey = Some ''sk_acme_ci'',
           rc_startTime = Some noon\<rparr>"
proof -
  have h1: "opaque_credential (with_key ''sk_acme_ci'') ''sk_acme_ci''"
    by (simp add: opaque_with_key)
  have h2: "\<not> e_failing calm SelectTenantByKey" by (simp add: calm_def)
  have h3: "\<not> e_failing calm UpdateLastUsed" by (simp add: calm_def)
  have h4: "t_is_active acme" by (simp add: acme_def)
  have h5: "unexpired (e_now calm) ci_key" by (simp add: unexpired_def ci_key_def)
  have h6: "ak_rate_limit ci_key = Some 5" by (simp add: ci_key_def)
  have h7: "(5::int) \<noteq> 0" by simp
  have h8: "ak_is_active ci_key = False" by (simp add: ci_key_def)
  have run: "fst (authenticateTenant calm (shop []) (with_key ''sk_acme_ci'')) =
     Next \<lparr>rc_tenant = TenantInfo
             \<lparr>ti_id = ''t-acme'', ti_name = ''Acme'', ti_subdomain = ''acme'', ti_plan = ''basic'',
              ti_max_endpoints = Some 10, ti_max_requests_per_day = Some 2,
              ti_permissions = [(''read'', JBool True)], ti_rate_limit = Some 5\<rparr>,
           rc_authMethod = ''api_key'', rc_apiKey = Some ''sk_acme_ci'',
           rc_startTime = Some noon\<rparr>"
    by (simp add: auth_defs example_defs)
  show ?thesis
    using inactive_key_resolves [OF h1 h2 h3 shop_secondary_ci h4 h5 h6 h7, of "[]"]
      h1 h2 h3 h4 h5 h6 h8 shop_secondary_ci [of "[]"] run
    by simp
qed

text \<open>
  Claim C6. A failure of the last-used update must not fail the request. The update is
  awaited inside the middleware's \<open>try\<close> (lines 79 to 84), so when it throws the outer
  \<open>catch\<close> answers 500: the request of the example tenant's secondary key, passed on when
  the store works and also when the usage log's insert throws (\<open>logAPIUsage\<close> logs and
  swallows), is answered 500 \<open>Authentication failed\<close> when only the last-used update
  throws.
\<close>

theorem last_used_failure_fails_request:
  "authenticateTenant (outage UpdateLastUsed) (shop []) (with_key ''sk_acme_ci'') =
     (Status 500 \<lparr>b_error = ''Authentication failed'',
        b_message = ''Internal server error during authentication'', b_resetTime = None\<rparr>,
      shop []) \<and>
   fst (authenticateTenant calm (shop []) (with_key ''sk_acme_ci'')) =
     Next \<lparr>rc_tenant = TenantInfo
             \<lparr>ti_id = ''t-acme'', ti_name = ''Acme'', ti_subdomain = ''acme'', ti_plan = ''basic'',
              ti_max_endpoints = Some 10, ti_max_requests_per_day = Some 2,
              ti_permissions = [(''read'', JBool True)], ti_rate_limit = Some 5\<rparr>,
           rc_authMethod = ''api_key'', rc_apiKey = Some ''sk_acme_ci'',
           rc_startTime = Some noon\<rparr> \<and>
   fst (authenticateTenant (outage InsertUsage) (shop []) (with_key ''sk_acme_ci'')) =
     Next \<lparr>rc_tenant = TenantInfo
             \<lparr>ti_id = ''t-acme'', ti_name = ''Acme'', ti_subdomain = ''acme'', ti_plan = ''basic'',
              ti_max_endpoints = Some 10, ti_max_requests_per_day = Some 2,
              ti_permissions = [(''read'', JBool True)], ti_rate_limit = Some 5\<rparr>,
           rc_authMethod = ''api_key'', rc_apiKey = Some ''sk_acme_ci'',
           rc_startTime = Some noon\<rparr>"
  by (simp add: auth_defs example_defs auth_failed_body_def)

section \<open>The capability gate\<close>

text \<open>
  Claim C5. On the enterprise plan the permission check passes for every capability
  name, whatever the permission set holds; on any other plan a capability the permission
  set does not grant is answered 403 \<open>Permission denied\<close>. A capability name is a
  name of the platform's own, not one of the member names every object inherits.
\<close>

theorem permission_gate:
  "(rt_plan (rc_tenant ctx) = ''enterprise'' \<longrightarrow>
      requirePermission name (Some ctx) = Next ctx) \<and>
   (rt_plan (rc_tenant ctx) \<noteq> ''enterprise'' \<and> \<not> grants (rc_tenant ctx) name \<and>
    name \<notin> set object_prototype_members \<longrightarrow>
      requirePermission name (Some ctx) = Status 403 (permission_denied_body name))"
  by (cases "rc_tenant ctx")
    (auto simp: requirePermission_def grants_def js_get_def split: option.splits)

theorem permission_gate_witness:
  "rt_plan (rc_tenant (member ''enterprise'' [])) = ''enterprise'' \<and>
   requirePermission ''write'' (Some (member ''enterprise'' [])) = Next (member ''enterprise'' []) \<and>
   rt_plan (rc_tenant (member ''pro'' [(''read'', JBool True), (''write'', JBool False)]))
     \<noteq> ''enterprise'' \<and>
   \<not> grants (rc_tenant (member ''pro'' [(''read'', JBool True), (''write'', JBool False)])) ''write'' \<and>
   ''write'' \<notin> set object_prototype_members \<and>
   requirePermission ''write''
       (Some (member ''pro'' [(''read'', JBool True), (''write'', JBool False)])) =
     Status 403 \<lparr>b_error = ''Permission denied'',
       b_message = ''This action requires '' @ [CHR 0x27] @ ''write'' @ [CHR 0x27] @
                   '' permission or enterprise plan'',
       b_resetTime = None\<rparr>"
proof -
  have h1: "rt_plan (rc_tenant (member ''enterprise'' [])) = ''enterprise''"
    by (simp add: member_def)
  have h2: "rt_plan (rc_tenant (member ''pro'' [(''read'', JBool True), (''write'', JBool False)]))
     \<noteq> ''enterprise''"
    by (simp add: member_def)
  have h3: "\<not> grants (rc_tenant (member ''pro'' [(''read'', JBool True), (''write'', JBool False)])) ''write''"
    by (simp add: member_def grants_def)
  have h4: "''write'' \<notin> set object_prototype_members"
    by (simp add: object_prototype_members_def)
  show ?thesis
    using permission_gate [of "member ''enterprise'' []" "''write''"]
      permission_gate [of "member ''pro'' [(''read'', JBool True), (''write'', JBool False)]" "''write''"]
      h1 h2 h3 h4
    by (simp add: permission_denied_body_def)
qed

section \<open>The real-time session coordinator\<close>

text \<open>
  Claim C7. A failed join leaves the connection without a tenant. When the connection
  row cannot be written the handler emits \<open>Connection failed\<close>, but the socket is
  already bound to the tenant and in its room: the operations for joined sockets that
  follow are served.
\<close>

theorem failed_persist_leaves_tenant_bound:
  "join_tenant (outage UpsertConnection) ''t-acme'' ''pk_acme'' (fresh_socket, lounge []) =
     ((fresh_socket\<lparr>s_tenantId := Some ''t-acme'', s_tenant := Some acme,
                     s_rooms := [''tenant-t-acme'']\<rparr>, lounge []),
      [Error ''Connection failed'']) \<and>
   snd (execute_query (fst (join_tenant (outage UpsertConnection) ''t-acme'' ''pk_acme''
          (fresh_socket, lounge [])))) =
     [QueryResult, QueryExecuted ''tenant-t-acme'' ''sock-1''] \<and>
   snd (test_connection (fst (join_tenant (outage UpsertConnection) ''t-acme'' ''pk_acme''
          (fresh_socket, lounge [])))) =
     [ConnectionTestResult]"
  by (simp add: socket_defs socket_example_defs example_defs)

text \<open>
  Claim C8. A join followed by a join on the same socket leaves one registry row with the
  socket's connection id, its heartbeat at the time of the second join and its active
  flag set; the second join adds no row, and the connection ids stay distinct.
\<close>

theorem rejoin_single_row:
  assumes "t \<in> set (tenants st)" and "t_id t = tenantId" and "t_api_key t = apiKey"
      and "t_is_active t"
      and "\<not> e_failing e1 SelectTenantForJoin" and "\<not> e_failing e1 UpsertConnection"
      and "\<not> e_failing e2 SelectTenantForJoin" and "\<not> e_failing e2 UpsertConnection"
      and "distinct (map c_connection_id (realtime_connections st))"
  shows "(\<exists>c. rows_of (s_id s)
                (snd (fst (join_tenant e2 tenantId apiKey
                  (fst (join_tenant e1 tenantId apiKey (s, st)))))) = [c] \<and>
              c_last_ping_at c = e_now e2 \<and> c_is_active c) \<and>
         distinct (map c_connection_id (realtime_connections
           (snd (fst (join_tenant e2 tenantId apiKey
             (fst (join_tenant e1 tenantId apiKey (s, st)))))))) \<and>
         length (realtime_connections
           (snd (fst (join_tenant e2 tenantId apiKey
             (fst (join_tenant e1 tenantId apiKey (s, st))))))) =
         length (realtime_connections (snd (fst (join_tenant e1 tenantId apiKey (s, st)))))"
proof -
  obtain s1 st1 out1 where j1: "join_tenant e1 tenantId apiKey (s, st) = ((s1, st1), out1)"
    and id1: "s_id s1 = s_id s"
    and u1: "upsert_connection False (e_now e1) st tenantId (s_id s) (s_id s) (e_now e1) = Inr st1"
    using join_ok [OF assms(1-6)] by blast
  note r1 = upsert_rows [OF assms(9) u1]
  have t1: "t \<in> set (tenants st1)" using r1 assms(1) by simp
  obtain s2 st2 out2 where j2: "join_tenant e2 tenantId apiKey (s1, st1) = ((s2, st2), out2)"
    and u2: "upsert_connection False (e_now e2) st1 tenantId (s_id s1) (s_id s1) (e_now e2) = Inr st2"
    using join_ok [OF t1 assms(2-4) assms(7,8)] by blast
  have d1: "distinct (map c_connection_id (realtime_connections st1))" using r1 by simp
  note r2 = upsert_rows [OF d1 u2]
  have "rows_of (s_id s) st1 \<noteq> []" using r1 by auto
  then show ?thesis using r2 by (simp add: j1 j2 id1)
qed

theorem rejoin_single_row_witness:
  "acme \<in> set (tenants (lounge [conn ''sock-1'' (noon - 3600000) False])) \<and>
   t_id acme = ''t-acme'' \<and> t_api_key acme = ''pk_acme'' \<and> t_is_active acme \<and>
   \<not> e_failing calm SelectTenantForJoin \<and> \<not> e_failing calm UpsertConnection \<and>
   \<not> e_failing later SelectTenantForJoin \<and> \<not> e_failing later UpsertConnection \<and>
   distinct (map c_connection_id (realtime_connections (lounge [conn ''sock-1'' (noon - 3600000) False]))) \<and>
   realtime_connections (snd (fst (join_tenant calm ''t-acme'' ''pk_acme''
       (fresh_socket, lounge [conn ''sock-1'' (noon - 3600000) False])))) =
     [conn ''sock-1'' noon True] \<and>
   realtime_connections (snd (fst (join_tenant later ''t-acme'' ''pk_acme''
       (fst (join_tenant calm ''t-acme'' ''pk_acme''
         (fresh_socket, lounge [conn ''sock-1'' (noon - 3600000) False])))))) =
     [conn ''sock-1'' (noon + 60000) True] \<and>
   realtime_connections (snd (fst (join_tenant later ''t-acme'' ''pk_acme''
       (fst (join_tenant calm ''t-acme'' ''pk_acme'' (fresh_socket, lounge [])))))) =
     [\<lparr>c_tenant_id = ''t-acme'', c_connection_id = ''sock-1'', c_socket_id = ''sock-1'',
       c_user_info = noon, c_connected_at = noon, c_last_ping_at = noon + 60000,
       c_is_active = True\<rparr>]"
proof -
  have h1: "acme \<in> set (tenants (lounge [conn ''sock-1'' (noon - 3600000) False]))"
    by (simp add: lounge_def)
  have h2: "t_id acme = ''t-acme''" and h3: "t_api_key acme = ''pk_acme''" and h4: "t_is_active acme"
    by (simp_all add: acme_def)
  have h5: "\<not> e_failing calm SelectTenantForJoin" and h6: "\<not> e_failing calm UpsertConnection"
    by (simp_all add: calm_def)
  have h7: "\<not> e_failing later SelectTenantForJoin" and h8: "\<not> e_failing later UpsertConnection"
    by (simp_all add: later_def calm_def)
  have h9: "distinct (map c_connection_id
              (realtime_connections (lounge [conn ''sock-1'' (noon - 3600000) False])))"
    by (simp add: lounge_def)
  have r1: "realtime_connections (snd (fst (join_tenant calm ''t-acme'' ''pk_acme''
       (fresh_socket, lounge [conn ''sock-1'' (noon - 3600000) False])))) =
     [conn ''sock-1'' noon True]"
    by (simp add: socket_defs socket_example_defs example_defs)
  have r2: "realtime_connections (snd (fst (join_tenant later ''t-acme'' ''pk_acme''
       (fst (join_tenant calm ''t-acme'' ''pk_acme''
         (fresh_socket, lounge [conn ''sock-1'' (noon - 3600000) False])))))) =
     [conn ''sock-1'' (noon + 60000) True]"
    by (simp add: socket_defs socket_example_defs example_defs)
  have r3: "realtime_connections (snd (fst (join_tenant later ''t-acme'' ''pk_acme''
       (fst (join_tenant calm ''t-acme'' ''pk_acme'' (fresh_socket, lounge [])))))) =
     [\<lparr>c_tenant_id = ''t-acme'', c_connection_id = ''sock-1'', c_socket_id = ''sock-1'',
       c_user_info = noon, c_connected_at = noon, c_last_ping_at = noon + 60000,
       c_is_active = True\<rparr>]"
    by (simp add: socket_defs socket_example_defs example_defs)
  show ?thesis
    using rejoin_single_row [OF h1 h2 h3 h4 h5 h6 h7 h8 h9, of fresh_socket]
      h1 h2 h3 h4 h5 h6 h7 h8 h9 r1 r2 r3
    by simp
qed

text \<open>
  Claim C9. A run of the sweep whose delete returns removes exactly the registry rows
  whose last heartbeat is more than 10 minutes old or whose active flag is false: an
  active row last heard of 11 minutes ago goes, one last heard of 9 minutes ago stays.
  The other tables are not touched.
\<close>

theorem sweep_deletes_stale:
  assumes "\<not> e_failing e DeleteStale"
  shows "realtime_connections (sweep e st) =
           filter (\<lambda>c. e_now e - c_last_ping_at c \<le> 10 * 60 * 1000 \<and> c_is_active c)
             (realtime_connections st) \<and>
         (\<forall>c \<in> set (realtime_connections st).
            c \<notin> set (realtime_connections (sweep e st)) \<longleftrightarrow>
              10 * 60 * 1000 < e_now e - c_last_ping_at c \<or> \<not> c_is_active c) \<and>
         (\<forall>c \<in> set (realtime_connections st).
            c_is_active c \<and> c_last_ping_at c = e_now e - 11 * 60 * 1000 \<longrightarrow>
              c \<notin> set (realtime_connections (sweep e st))) \<and>
         (\<forall>c \<in> set (realtime_connections st).
            c_is_active c \<and> c_last_ping_at c = e_now e - 9 * 60 * 1000 \<longrightarrow>
              c \<in> set (realtime_connections (sweep e st))) \<and>
         tenants (sweep e st) = tenants st \<and> api_keys (sweep e st) = api_keys st \<and>
         api_usage_logs (sweep e st) = api_usage_logs st"
proof -
  have keep: "(\<not> stale (e_now e) c) = (e_now e - c_last_ping_at c \<le> 10 * 60 * 1000 \<and> c_is_active c)"
    for c
    by (auto simp: stale_def ten_minutes_def)
  have sw: "sweep e st = st\<lparr>realtime_connections :=
      filter (\<lambda>c. e_now e - c_last_ping_at c \<le> 10 * 60 * 1000 \<and> c_is_active c)
        (realtime_connections st)\<rparr>"
    using assms by (simp add: sweep_def delete_stale_def keep)
  show ?thesis by (auto simp: sw)
qed

theorem sweep_deletes_stale_witness:
  "\<not> e_failing calm DeleteStale \<and>
   realtime_connections (sweep calm (lounge
       [conn ''sock-1'' (noon - 11 * 60 * 1000) True, conn ''sock-2'' (noon - 9 * 60 * 1000) True,
        conn ''sock-3'' noon False, conn ''sock-4'' (noon - 10 * 60 * 1000) True])) =
     [conn ''sock-2'' (noon - 9 * 60 * 1000) True, conn ''sock-4'' (noon - 10 * 60 * 1000) True]"
proof -
  have h: "\<not> e_failing calm DeleteStale" by (simp add: calm_def)
  show ?thesis
    using sweep_deletes_stale [OF h, of "lounge
       [conn ''sock-1'' (noon - 11 * 60 * 1000) True, conn ''sock-2'' (noon - 9 * 60 * 1000) True,
        conn ''sock-3'' noon False, conn ''sock-4'' (noon - 10 * 60 * 1000) True]"] h
    by (simp add: socket_example_defs example_defs)
qed

end
